theory Spec2Isabelle
  imports Complex_Main
begin

section \<open>Crab Pong: the simulation core of \<^verbatim>\<open>src/App.tsx\<close>\<close>

text \<open>
  The game keeps its state in React state (\<^verbatim>\<open>score1\<close>, \<^verbatim>\<open>score2\<close>, \<^verbatim>\<open>gameState\<close>,
  \<^verbatim>\<open>winner\<close>), in refs (\<^verbatim>\<open>targetZ\<close>, \<^verbatim>\<open>velocity\<close>, \<^verbatim>\<open>ballPositionRef\<close>,
  \<^verbatim>\<open>paddle1Ref\<close>, \<^verbatim>\<open>paddle2Ref\<close>) and in the positions of two three.js objects (the
  ball mesh and the group of each crab). The embedding makes that state explicit: each
  callback of the source (\<^verbatim>\<open>handleKeyDown\<close>, the two \<^verbatim>\<open>useFrame\<close> bodies,
  \<^verbatim>\<open>handleScore\<close>, \<^verbatim>\<open>startGame\<close>) is a function from the state before to the state
  after. React state is written by \<^verbatim>\<open>setState\<close> calls, which take effect at the next
  render and not at the call; the calls made and not yet rendered are part of the state.
  The value returned by \<^verbatim>\<open>Math.random()\<close> is a parameter of the frame.

  JavaScript numbers are modelled as real numbers, so the arithmetic here is exact where
  the program's binary64 arithmetic rounds. Nothing below bounds the result of an
  interpolation; where a theorem evaluates one, the values are such that the binary64
  computation is exact as well.
\<close>

subsection \<open>Game constants\<close>

definition ARENA_WIDTH :: real where [simp]: "ARENA_WIDTH = 12"
definition ARENA_HEIGHT :: real where [simp]: "ARENA_HEIGHT = 8"
definition PADDLE_WIDTH :: real where [simp]: "PADDLE_WIDTH = 2.5"
definition BALL_SPEED :: real where [simp]: "BALL_SPEED = 8"
definition PADDLE_SPEED :: real where [simp]: "PADDLE_SPEED = 10"
definition WINNING_SCORE :: int where [simp]: "WINNING_SCORE = 5"

subsection \<open>The two helpers of \<^verbatim>\<open>THREE.MathUtils\<close> the source calls\<close>

text \<open>
  three.js defines \<^verbatim>\<open>clamp(value, min, max) = Math.max(min, Math.min(max, value))\<close> and
  \<^verbatim>\<open>lerp(x, y, t) = (1 - t) * x + t * y\<close>; the factor \<^verbatim>\<open>t\<close> is not restricted to
  the unit interval. Both are taken over the reals: \<^verbatim>\<open>clamp\<close> returns one of its
  arguments and is the same in binary64, \<^verbatim>\<open>lerp\<close> is rounded there (for instance
  \<^verbatim>\<open>lerp(2.75, 2.75, t)\<close> can exceed \<open>2.75\<close> by one unit in the last place), so this
  \<open>lerp\<close> is the program's only up to rounding.
\<close>

definition clamp :: "real \<Rightarrow> real \<Rightarrow> real \<Rightarrow> real" where
  "clamp v lo hi = max lo (min hi v)"

definition lerp :: "real \<Rightarrow> real \<Rightarrow> real \<Rightarrow> real" where
  "lerp a b t = (1 - t) * a + t * b"

subsection \<open>Data\<close>

record vector3 =
  vec_x :: real
  vec_y :: real
  vec_z :: real

definition Vector3 :: "real \<Rightarrow> real \<Rightarrow> real \<Rightarrow> vector3" where
  "Vector3 a b c = \<lparr>vec_x = a, vec_y = b, vec_z = c\<rparr>"

text \<open>The argument of \<^verbatim>\<open>onScore\<close> and the value of \<^verbatim>\<open>winner\<close>: \<^verbatim>\<open>1\<close> is the human
  player (red crab, on the left), \<^verbatim>\<open>2\<close> is the AI (blue crab, on the right).\<close>

datatype player = Player1 | Player2

datatype game_state = menu | playing | gameover

text \<open>One crab: the ref \<^verbatim>\<open>targetZ\<close> and the lateral coordinate of its group,
  \<^verbatim>\<open>groupRef.current.position.z\<close>.\<close>

record paddle_state =
  targetZ :: real
  paddle_z :: real

text \<open>The ball: the position of its mesh, the ref \<^verbatim>\<open>velocity\<close>, and the vector
  \<^verbatim>\<open>ballPositionRef.current\<close>, which the AI crab reads.\<close>

record ball_state =
  position :: vector3
  velocity :: vector3
  ballPositionRef :: vector3

text \<open>The React state of \<^verbatim>\<open>App\<close>, as of the last render.\<close>

record app_state =
  score1 :: int
  score2 :: int
  gameState :: game_state
  winner :: "player option"

text \<open>A call that writes React state and has not been rendered yet: \<^verbatim>\<open>handleScore\<close>
  with its argument, or \<^verbatim>\<open>startGame\<close>.\<close>

datatype pending = OnScore player | StartGame

text \<open>The whole page. \<^verbatim>\<open>app\<close> is the React state of the last render; the props of
  that render are computed from it, in particular \<^verbatim>\<open>isPaused\<close>, which is
  \<^verbatim>\<open>gameState !== 'playing'\<close>. \<^verbatim>\<open>queue\<close> holds the calls made since, oldest first.\<close>

record game =
  app :: app_state
  queue :: "pending list"
  player_paddle :: paddle_state
  ai_paddle :: paddle_state
  ball :: ball_state
  paddle1Ref :: "vector3 option"
  paddle2Ref :: "vector3 option"

subsection \<open>\<^verbatim>\<open>CrabPaddle\<close>\<close>

text \<open>The key handler is registered for the player's crab only. It has two
  consecutive \<^verbatim>\<open>if\<close> statements and reads no game phase.\<close>

definition handleKeyDown :: "string \<Rightarrow> paddle_state \<Rightarrow> paddle_state" where
  "handleKeyDown key p =
    (let p1 = (if key = ''ArrowUp'' \<or> key = ''w''
               then p\<lparr>targetZ := max (targetZ p - 0.5) (- ARENA_HEIGHT / 2 + PADDLE_WIDTH / 2)\<rparr>
               else p);
         p2 = (if key = ''ArrowDown'' \<or> key = ''s''
               then p1\<lparr>targetZ := min (targetZ p1 + 0.5) (ARENA_HEIGHT / 2 - PADDLE_WIDTH / 2)\<rparr>
               else p1)
     in p2)"

text \<open>The frame callback of a crab; \<^verbatim>\<open>ballPosition\<close> is the vector of
  \<^verbatim>\<open>ballPositionRef\<close>. The callback takes no \<^verbatim>\<open>isPaused\<close> and reads no game phase.
  (The claw animation only turns the claws and is left out.)\<close>

definition CrabPaddle_useFrame :: "bool \<Rightarrow> real \<Rightarrow> vector3 \<Rightarrow> paddle_state \<Rightarrow> paddle_state" where
  "CrabPaddle_useFrame isAI delta ballPosition p =
    (if isAI then
       (let targetAIZ = clamp (vec_z ballPosition)
                          (- ARENA_HEIGHT / 2 + PADDLE_WIDTH / 2)
                          (ARENA_HEIGHT / 2 - PADDLE_WIDTH / 2)
        in p\<lparr>paddle_z := lerp (paddle_z p) targetAIZ (delta * 3)\<rparr>)
     else p\<lparr>paddle_z := lerp (paddle_z p) (targetZ p) (delta * PADDLE_SPEED)\<rparr>)"

subsection \<open>\<^verbatim>\<open>Ball\<close>\<close>

text \<open>The frame callback of the ball, one definition for each commented block of the
  source, in the source's order.\<close>

text \<open>Update position, then copy it to \<^verbatim>\<open>ballPositionRef\<close>.\<close>

definition updatePosition :: "real \<Rightarrow> ball_state \<Rightarrow> ball_state" where
  "updatePosition delta b =
    (let p = position b; v = velocity b;
         p' = p\<lparr>vec_x := vec_x p + vec_x v * delta, vec_z := vec_z p + vec_z v * delta\<rparr>
     in b\<lparr>position := p', ballPositionRef := p'\<rparr>)"

text \<open>Top/bottom wall collision.\<close>

definition wallCollision :: "ball_state \<Rightarrow> ball_state" where
  "wallCollision b =
    (let p = position b; v = velocity b in
     if vec_z p > ARENA_HEIGHT / 2 - 0.3 \<or> vec_z p < - ARENA_HEIGHT / 2 + 0.3
     then b\<lparr>velocity := v\<lparr>vec_z := vec_z v * (- 1)\<rparr>,
            position := p\<lparr>vec_z := clamp (vec_z p) (- ARENA_HEIGHT / 2 + 0.3) (ARENA_HEIGHT / 2 - 0.3)\<rparr>\<rparr>
     else b)"

text \<open>Paddle collision (left - player). The ref may be null by its type.\<close>

definition paddleCollisionLeft :: "vector3 option \<Rightarrow> ball_state \<Rightarrow> ball_state" where
  "paddleCollisionLeft paddle1 b =
    (case paddle1 of
       None \<Rightarrow> b
     | Some pad \<Rightarrow>
        (let p = position b; v = velocity b in
         if vec_x p < - ARENA_WIDTH / 2 + 1.5 \<and> \<bar>vec_z p - vec_z pad\<bar> < PADDLE_WIDTH / 2 + 0.3
         then b\<lparr>velocity := v\<lparr>vec_x := \<bar>vec_x v\<bar> * 1.05,
                               vec_z := vec_z v + (vec_z p - vec_z pad) * 2\<rparr>,
                position := p\<lparr>vec_x := - ARENA_WIDTH / 2 + 1.5\<rparr>\<rparr>
         else b))"

text \<open>Paddle collision (right - AI).\<close>

definition paddleCollisionRight :: "vector3 option \<Rightarrow> ball_state \<Rightarrow> ball_state" where
  "paddleCollisionRight paddle2 b =
    (case paddle2 of
       None \<Rightarrow> b
     | Some pad \<Rightarrow>
        (let p = position b; v = velocity b in
         if vec_x p > ARENA_WIDTH / 2 - 1.5 \<and> \<bar>vec_z p - vec_z pad\<bar> < PADDLE_WIDTH / 2 + 0.3
         then b\<lparr>velocity := v\<lparr>vec_x := - \<bar>vec_x v\<bar> * 1.05,
                               vec_z := vec_z v + (vec_z p - vec_z pad) * 2\<rparr>,
                position := p\<lparr>vec_x := ARENA_WIDTH / 2 - 1.5\<rparr>\<rparr>
         else b))"

text \<open>Score: two consecutive \<^verbatim>\<open>if\<close> statements; the calls of \<^verbatim>\<open>onScore\<close> are
  returned as a list, in the order they are made. \<^verbatim>\<open>rnd\<close> is what
  \<^verbatim>\<open>Math.random()\<close> returns.\<close>

definition scoreLeft :: "real \<Rightarrow> ball_state \<times> player list \<Rightarrow> ball_state \<times> player list" where
  "scoreLeft rnd = (\<lambda>(b, calls).
     if vec_x (position b) < - ARENA_WIDTH / 2 - 1
     then (b\<lparr>position := Vector3 0 0.5 0,
             velocity := Vector3 BALL_SPEED 0 ((rnd - 0.5) * BALL_SPEED)\<rparr>, calls @ [Player2])
     else (b, calls))"

definition scoreRight :: "real \<Rightarrow> ball_state \<times> player list \<Rightarrow> ball_state \<times> player list" where
  "scoreRight rnd = (\<lambda>(b, calls).
     if vec_x (position b) > ARENA_WIDTH / 2 + 1
     then (b\<lparr>position := Vector3 0 0.5 0,
             velocity := Vector3 (- BALL_SPEED) 0 ((rnd - 0.5) * BALL_SPEED)\<rparr>, calls @ [Player1])
     else (b, calls))"

text \<open>Clamp velocity.\<close>

definition clampVelocity :: "ball_state \<Rightarrow> ball_state" where
  "clampVelocity b =
    b\<lparr>velocity := (velocity b)\<lparr>vec_z := clamp (vec_z (velocity b)) (- BALL_SPEED * 1.5) (BALL_SPEED * 1.5)\<rparr>\<rparr>"

text \<open>The state of the ball where the score checks read it: after the position
  update, the wall check and the two paddle checks.\<close>

definition beforeScore :: "real \<Rightarrow> vector3 option \<Rightarrow> vector3 option \<Rightarrow> ball_state \<Rightarrow> ball_state" where
  "beforeScore delta paddle1 paddle2 b =
    paddleCollisionRight paddle2 (paddleCollisionLeft paddle1 (wallCollision (updatePosition delta b)))"

text \<open>The whole callback. It returns at once when \<^verbatim>\<open>isPaused\<close>. (The mesh is mounted
  whenever a frame runs; the spin of the ball only turns the mesh and is left out.)\<close>

definition Ball_useFrame ::
  "real \<Rightarrow> real \<Rightarrow> bool \<Rightarrow> vector3 option \<Rightarrow> vector3 option \<Rightarrow> ball_state \<Rightarrow> ball_state \<times> player list" where
  "Ball_useFrame delta rnd isPaused paddle1 paddle2 b =
    (if isPaused then (b, [])
     else (let (b', calls) = scoreRight rnd (scoreLeft rnd (beforeScore delta paddle1 paddle2 b, []))
           in (clampVelocity b', calls)))"

subsection \<open>\<^verbatim>\<open>App\<close>\<close>

text \<open>What a call of \<^verbatim>\<open>handleScore\<close> does to the React state once it is rendered: the
  updater passed to \<^verbatim>\<open>setScore1\<close> (or \<^verbatim>\<open>setScore2\<close>) receives the score as it then
  is, and its own calls of \<^verbatim>\<open>setGameState\<close> and \<^verbatim>\<open>setWinner\<close> take effect in the
  same render. The function reads no game phase.\<close>

definition handleScore :: "player \<Rightarrow> app_state \<Rightarrow> app_state" where
  "handleScore pl a =
    (case pl of
       Player1 \<Rightarrow>
         (let newScore = score1 a + 1;
              a' = (if newScore \<ge> WINNING_SCORE then a\<lparr>gameState := gameover, winner := Some Player1\<rparr> else a)
          in a'\<lparr>score1 := newScore\<rparr>)
     | Player2 \<Rightarrow>
         (let newScore = score2 a + 1;
              a' = (if newScore \<ge> WINNING_SCORE then a\<lparr>gameState := gameover, winner := Some Player2\<rparr> else a)
          in a'\<lparr>score2 := newScore\<rparr>))"

definition startGame :: "app_state \<Rightarrow> app_state" where
  "startGame a = a\<lparr>score1 := 0, score2 := 0, winner := None, gameState := playing\<rparr>"

text \<open>A render applies the calls made since the last one, in the order they were
  made.\<close>

fun commit :: "app_state \<Rightarrow> pending \<Rightarrow> app_state" where
  "commit a (OnScore pl) = handleScore pl a"
| "commit a StartGame = startGame a"

subsection \<open>The scene and its events\<close>

text \<open>The state when the page has loaded: \<^verbatim>\<open>useState\<close> and \<^verbatim>\<open>useRef\<close> initial
  values and the \<^verbatim>\<open>position\<close> props of the crabs and of the ball mesh.\<close>

definition initial :: game where
  "initial =
    \<lparr>app = \<lparr>score1 = 0, score2 = 0, gameState = menu, winner = None\<rparr>,
     queue = [],
     player_paddle = \<lparr>targetZ = 0, paddle_z = 0\<rparr>,
     ai_paddle = \<lparr>targetZ = 0, paddle_z = 0\<rparr>,
     ball = \<lparr>position = Vector3 0 0.5 0,
             velocity = Vector3 BALL_SPEED 0 (BALL_SPEED * 0.5),
             ballPositionRef = Vector3 0 0.5 0\<rparr>,
     paddle1Ref = Some (Vector3 (- ARENA_WIDTH / 2 + 1) 0.5 0),
     paddle2Ref = Some (Vector3 (ARENA_WIDTH / 2 - 1) 0.5 0)\<rparr>"

text \<open>One animation frame: the crabs' callbacks, then the ball's (the order in which
  the components are mounted). The ball's callback tests the \<^verbatim>\<open>isPaused\<close> of the last
  render, and each of its \<^verbatim>\<open>onScore\<close> calls is a call of \<^verbatim>\<open>handleScore\<close>, which only
  joins the queue: the React state, and with it \<^verbatim>\<open>isPaused\<close>, stays as it is until
  the next render. The frame callback of \<^verbatim>\<open>GameScene\<close> assigns nothing, so
  \<^verbatim>\<open>paddle1Ref\<close> and \<^verbatim>\<open>paddle2Ref\<close> keep their vectors.\<close>

definition frame :: "real \<Rightarrow> real \<Rightarrow> game \<Rightarrow> game" where
  "frame delta rnd g =
    (let pp = CrabPaddle_useFrame False delta (ballPositionRef (ball g)) (player_paddle g);
         ap = CrabPaddle_useFrame True delta (ballPositionRef (ball g)) (ai_paddle g);
         (b, calls) = Ball_useFrame delta rnd (gameState (app g) \<noteq> playing)
                        (paddle1Ref g) (paddle2Ref g) (ball g)
     in g\<lparr>player_paddle := pp, ai_paddle := ap, ball := b,
          queue := queue g @ map OnScore calls\<rparr>)"

text \<open>A render applies the queued calls to the React state and empties the queue. It
  leaves the refs and the positions of the mesh and of the groups as they are: the refs
  keep their objects, and the \<^verbatim>\<open>position\<close> props are the same constant arrays at every
  render. Only the callbacks above write them.\<close>

definition render :: "game \<Rightarrow> game" where
  "render g = g\<lparr>app := foldl commit (app g) (queue g), queue := []\<rparr>"

text \<open>What can happen to the page: a key goes down; a frame runs (with its time delta
  and the value \<^verbatim>\<open>Math.random()\<close> would return); the button of the menu or game-over
  overlay is clicked, which calls \<^verbatim>\<open>startGame\<close> (the last render shows no overlay,
  hence no button, while its \<^verbatim>\<open>gameState\<close> is \<^verbatim>\<open>'playing'\<close>); or React renders. When
  React renders is up to its scheduler: ordinarily soon after a call, but any number of
  frames may run first.\<close>

datatype event = KeyDown string | Frame real real | Click | Render

fun step :: "event \<Rightarrow> game \<Rightarrow> game" where
  "step (KeyDown key) g = g\<lparr>player_paddle := handleKeyDown key (player_paddle g)\<rparr>"
| "step (Frame delta rnd) g = frame delta rnd g"
| "step Click g = (if gameState (app g) = playing then g else g\<lparr>queue := queue g @ [StartGame]\<rparr>)"
| "step Render g = render g"

definition run :: "event list \<Rightarrow> game \<Rightarrow> game" where
  "run evs g = foldl (\<lambda>s e. step e s) g evs"

subsection \<open>Auxiliary notions\<close>

text \<open>The conditions of the two paddle checks, named.\<close>

definition hitsLeft :: "vector3 option \<Rightarrow> ball_state \<Rightarrow> bool" where
  "hitsLeft paddle1 b = (case paddle1 of None \<Rightarrow> False | Some pad \<Rightarrow>
     vec_x (position b) < - ARENA_WIDTH / 2 + 1.5 \<and> \<bar>vec_z (position b) - vec_z pad\<bar> < PADDLE_WIDTH / 2 + 0.3)"

definition hitsRight :: "vector3 option \<Rightarrow> ball_state \<Rightarrow> bool" where
  "hitsRight paddle2 b = (case paddle2 of None \<Rightarrow> False | Some pad \<Rightarrow>
     vec_x (position b) > ARENA_WIDTH / 2 - 1.5 \<and> \<bar>vec_z (position b) - vec_z pad\<bar> < PADDLE_WIDTH / 2 + 0.3)"

text \<open>The two score checks in sequence, starting with no call made.\<close>

definition scoreStep :: "real \<Rightarrow> ball_state \<Rightarrow> ball_state \<times> player list" where
  "scoreStep rnd b = scoreRight rnd (scoreLeft rnd (b, []))"

text \<open>The lateral interval of the ball: the arena less the ball's radius.\<close>

definition inBallRange :: "real \<Rightarrow> bool" where
  "inBallRange v \<longleftrightarrow> - ARENA_HEIGHT / 2 + 0.3 \<le> v \<and> v \<le> ARENA_HEIGHT / 2 - 0.3"

text \<open>Where each crab stands along the width (the \<^verbatim>\<open>position\<close> props in
  \<^verbatim>\<open>GameScene\<close>): the player on the left, the AI on the right. A velocity points
  towards a side when it has the sign of that side's coordinate.\<close>

fun paddleX :: "player \<Rightarrow> real" where
  "paddleX Player1 = - ARENA_WIDTH / 2 + 1"
| "paddleX Player2 = ARENA_WIDTH / 2 - 1"

fun opponent :: "player \<Rightarrow> player" where
  "opponent Player1 = Player2"
| "opponent Player2 = Player1"

definition towards :: "real \<Rightarrow> player \<Rightarrow> bool" where
  "towards v pl \<longleftrightarrow> 0 < v * paddleX pl"

text \<open>The lateral interval of a crab: the arena less half the paddle width.\<close>

definition inPaddleRange :: "real \<Rightarrow> bool" where
  "inPaddleRange v \<longleftrightarrow> - ARENA_HEIGHT / 2 + PADDLE_WIDTH / 2 \<le> v \<and> v \<le> ARENA_HEIGHT / 2 - PADDLE_WIDTH / 2"



text \<open>A whole match in frames of one second, each followed by a render: the ball leaves
  on alternating sides, so after the click and eight such frames the score is four all,
  and the ninth ends the match at five to four.\<close>

definition four_all :: "event list" where
  "four_all = [Click, Render, Frame 1 0, Render, Frame 1 0, Render, Frame 1 0, Render,
               Frame 1 0, Render, Frame 1 0, Render, Frame 1 0, Render, Frame 1 0, Render,
               Frame 1 0, Render]"

definition quick_match :: "event list" where
  "quick_match = four_all @ [Frame 1 0, Render]"


text \<open>The match with a move first: after the click the player presses \<^verbatim>\<open>s\<close>, and a
  frame of a tenth of a second (interpolation factor one) brings the crab to its target
  \<open>0.5\<close>; nine frames of one second, each followed by a render, then end the match at
  five to four.\<close>

definition match_with_move :: "event list" where
  "match_with_move = [Click, Render, KeyDown ''s'', Frame (1/10) 0, Render,
                      Frame 1 0, Render, Frame 1 0, Render, Frame 1 0, Render,
                      Frame 1 0, Render, Frame 1 0, Render, Frame 1 0, Render,
                      Frame 1 0, Render, Frame 1 0, Render, Frame 1 0, Render]"

section \<open>What each block of the ball's callback does to each coordinate\<close>

lemma updatePosition_simps:
  "velocity (updatePosition delta b) = velocity b"
  "vec_x (position (updatePosition delta b)) = vec_x (position b) + vec_x (velocity b) * delta"
  "vec_y (position (updatePosition delta b)) = vec_y (position b)"
  "vec_z (position (updatePosition delta b)) = vec_z (position b) + vec_z (velocity b) * delta"
  "ballPositionRef (updatePosition delta b) = position (updatePosition delta b)"
  by (simp_all add: updatePosition_def Let_def)

lemma wallCollision_simps:
  "vec_x (velocity (wallCollision b)) = vec_x (velocity b)"
  "vec_y (velocity (wallCollision b)) = vec_y (velocity b)"
  "vec_z (velocity (wallCollision b)) =
     (if vec_z (position b) > ARENA_HEIGHT / 2 - 0.3 \<or> vec_z (position b) < - ARENA_HEIGHT / 2 + 0.3
      then - vec_z (velocity b) else vec_z (velocity b))"
  "vec_x (position (wallCollision b)) = vec_x (position b)"
  "vec_y (position (wallCollision b)) = vec_y (position b)"
  "vec_z (position (wallCollision b)) = clamp (vec_z (position b)) (- ARENA_HEIGHT / 2 + 0.3) (ARENA_HEIGHT / 2 - 0.3)"
  "ballPositionRef (wallCollision b) = ballPositionRef b"
  by (simp_all add: wallCollision_def Let_def clamp_def)

lemma paddleCollisionLeft_simps:
  "vec_x (velocity (paddleCollisionLeft paddle1 b)) =
     (if hitsLeft paddle1 b then \<bar>vec_x (velocity b)\<bar> * 1.05 else vec_x (velocity b))"
  "vec_y (velocity (paddleCollisionLeft paddle1 b)) = vec_y (velocity b)"
  "vec_z (velocity (paddleCollisionLeft paddle1 b)) =
     (if hitsLeft paddle1 b then vec_z (velocity b) + (vec_z (position b) - vec_z (the paddle1)) * 2
      else vec_z (velocity b))"
  "vec_x (position (paddleCollisionLeft paddle1 b)) =
     (if hitsLeft paddle1 b then - ARENA_WIDTH / 2 + 1.5 else vec_x (position b))"
  "vec_y (position (paddleCollisionLeft paddle1 b)) = vec_y (position b)"
  "vec_z (position (paddleCollisionLeft paddle1 b)) = vec_z (position b)"
  "ballPositionRef (paddleCollisionLeft paddle1 b) = ballPositionRef b"
  by (simp_all add: paddleCollisionLeft_def hitsLeft_def Let_def split: option.split)

lemma paddleCollisionRight_simps:
  "vec_x (velocity (paddleCollisionRight paddle2 b)) =
     (if hitsRight paddle2 b then - \<bar>vec_x (velocity b)\<bar> * 1.05 else vec_x (velocity b))"
  "vec_y (velocity (paddleCollisionRight paddle2 b)) = vec_y (velocity b)"
  "vec_z (velocity (paddleCollisionRight paddle2 b)) =
     (if hitsRight paddle2 b then vec_z (velocity b) + (vec_z (position b) - vec_z (the paddle2)) * 2
      else vec_z (velocity b))"
  "vec_x (position (paddleCollisionRight paddle2 b)) =
     (if hitsRight paddle2 b then ARENA_WIDTH / 2 - 1.5 else vec_x (position b))"
  "vec_y (position (paddleCollisionRight paddle2 b)) = vec_y (position b)"
  "vec_z (position (paddleCollisionRight paddle2 b)) = vec_z (position b)"
  "ballPositionRef (paddleCollisionRight paddle2 b) = ballPositionRef b"
  by (simp_all add: paddleCollisionRight_def hitsRight_def Let_def split: option.split)

lemma scoreStep_cases:
  "scoreStep rnd b =
    (if vec_x (position b) < - ARENA_WIDTH / 2 - 1
     then (b\<lparr>position := Vector3 0 0.5 0,
             velocity := Vector3 BALL_SPEED 0 ((rnd - 0.5) * BALL_SPEED)\<rparr>, [Player2])
     else if vec_x (position b) > ARENA_WIDTH / 2 + 1
     then (b\<lparr>position := Vector3 0 0.5 0,
             velocity := Vector3 (- BALL_SPEED) 0 ((rnd - 0.5) * BALL_SPEED)\<rparr>, [Player1])
     else (b, []))"
  by (simp add: scoreStep_def scoreLeft_def scoreRight_def Vector3_def)

lemma Ball_useFrame_unfold:
  "Ball_useFrame delta rnd isPaused paddle1 paddle2 b =
    (if isPaused then (b, [])
     else (clampVelocity (fst (scoreStep rnd (beforeScore delta paddle1 paddle2 b))),
           snd (scoreStep rnd (beforeScore delta paddle1 paddle2 b))))"
  by (simp add: Ball_useFrame_def scoreStep_def split: prod.split)

lemma clampVelocity_simps:
  "vec_x (velocity (clampVelocity b)) = vec_x (velocity b)"
  "vec_y (velocity (clampVelocity b)) = vec_y (velocity b)"
  "vec_z (velocity (clampVelocity b)) = clamp (vec_z (velocity b)) (- BALL_SPEED * 1.5) (BALL_SPEED * 1.5)"
  "position (clampVelocity b) = position b"
  "ballPositionRef (clampVelocity b) = ballPositionRef b"
  by (simp_all add: clampVelocity_def)


lemma scoreStep_calls:
  "snd (scoreStep rnd b) =
    (if vec_x (position b) < - ARENA_WIDTH / 2 - 1 then [Player2]
     else if vec_x (position b) > ARENA_WIDTH / 2 + 1 then [Player1] else [])"
  by (simp add: scoreStep_cases)

lemma scoreStep_simps:
  "position (fst (scoreStep rnd b)) = (if snd (scoreStep rnd b) = [] then position b else Vector3 0 0.5 0)"
  "vec_x (velocity (fst (scoreStep rnd b))) =
     (if snd (scoreStep rnd b) = [] then vec_x (velocity b)
      else if snd (scoreStep rnd b) = [Player2] then BALL_SPEED else - BALL_SPEED)"
  "vec_y (velocity (fst (scoreStep rnd b))) = (if snd (scoreStep rnd b) = [] then vec_y (velocity b) else 0)"
  "vec_z (velocity (fst (scoreStep rnd b))) =
     (if snd (scoreStep rnd b) = [] then vec_z (velocity b) else (rnd - 0.5) * BALL_SPEED)"
  "ballPositionRef (fst (scoreStep rnd b)) = ballPositionRef b"
  by (simp_all add: scoreStep_cases Vector3_def)

lemma Vector3_sel [simp]:
  "vec_x (Vector3 a b c) = a" "vec_y (Vector3 a b c) = b" "vec_z (Vector3 a b c) = c"
  by (simp_all add: Vector3_def)

lemma clamp_bounds: "lo \<le> hi \<Longrightarrow> lo \<le> clamp v lo hi \<and> clamp v lo hi \<le> hi"
  by (simp add: clamp_def)

lemmas stage_simps = updatePosition_simps wallCollision_simps paddleCollisionLeft_simps
  paddleCollisionRight_simps clampVelocity_simps

lemma beforeScore_z_range:
  "- ARENA_HEIGHT / 2 + 0.3 \<le> vec_z (position (beforeScore delta paddle1 paddle2 b)) \<and>
   vec_z (position (beforeScore delta paddle1 paddle2 b)) \<le> ARENA_HEIGHT / 2 - 0.3"
  using clamp_bounds [of "- ARENA_HEIGHT / 2 + 0.3" "ARENA_HEIGHT / 2 - 0.3" "vec_z (position (updatePosition delta b))"]
  by (simp add: beforeScore_def paddleCollisionRight_simps paddleCollisionLeft_simps wallCollision_simps(6))

lemma frame_z_range:
  "- ARENA_HEIGHT / 2 + 0.3 \<le> vec_z (position (fst (Ball_useFrame delta rnd False paddle1 paddle2 b))) \<and>
   vec_z (position (fst (Ball_useFrame delta rnd False paddle1 paddle2 b))) \<le> ARENA_HEIGHT / 2 - 0.3"
  using beforeScore_z_range [of delta paddle1 paddle2 b]
  by (simp add: Ball_useFrame_unfold clampVelocity_simps scoreStep_simps)

lemma beforeScore_vx:
  "BALL_SPEED \<le> \<bar>vec_x (velocity b)\<bar> \<Longrightarrow> BALL_SPEED \<le> \<bar>vec_x (velocity (beforeScore delta paddle1 paddle2 b))\<bar>"
  by (simp add: beforeScore_def stage_simps abs_mult)

lemma frame_vx:
  "BALL_SPEED \<le> \<bar>vec_x (velocity b)\<bar> \<Longrightarrow>
   BALL_SPEED \<le> \<bar>vec_x (velocity (fst (Ball_useFrame delta rnd isPaused paddle1 paddle2 b)))\<bar>"
  using beforeScore_vx [of b delta paddle1 paddle2]
  by (simp add: Ball_useFrame_unfold clampVelocity_simps scoreStep_simps)

lemma frame_py:
  "vec_y (position b) = 0.5 \<Longrightarrow>
   vec_y (position (fst (Ball_useFrame delta rnd isPaused paddle1 paddle2 b))) = 0.5"
  by (simp add: Ball_useFrame_unfold scoreStep_simps beforeScore_def stage_simps)

lemma frame_vy:
  "vec_y (velocity b) = 0 \<Longrightarrow>
   vec_y (velocity (fst (Ball_useFrame delta rnd isPaused paddle1 paddle2 b))) = 0"
  by (simp add: Ball_useFrame_unfold scoreStep_simps beforeScore_def stage_simps)

section \<open>Frames and runs\<close>

lemma frame_simps:
  "ball (frame delta rnd g) =
     fst (Ball_useFrame delta rnd (gameState (app g) \<noteq> playing) (paddle1Ref g) (paddle2Ref g) (ball g))"
  "app (frame delta rnd g) = app g"
  "queue (frame delta rnd g) =
     queue g @ map OnScore
       (snd (Ball_useFrame delta rnd (gameState (app g) \<noteq> playing) (paddle1Ref g) (paddle2Ref g) (ball g)))"
  "player_paddle (frame delta rnd g) =
     CrabPaddle_useFrame False delta (ballPositionRef (ball g)) (player_paddle g)"
  "ai_paddle (frame delta rnd g) =
     CrabPaddle_useFrame True delta (ballPositionRef (ball g)) (ai_paddle g)"
  "paddle1Ref (frame delta rnd g) = paddle1Ref g"
  "paddle2Ref (frame delta rnd g) = paddle2Ref g"
  by (simp_all add: frame_def Let_def split: prod.split)

lemma render_simps:
  "app (render g) = foldl commit (app g) (queue g)"
  "queue (render g) = []"
  "ball (render g) = ball g"
  "player_paddle (render g) = player_paddle g"
  "ai_paddle (render g) = ai_paddle g"
  "paddle1Ref (render g) = paddle1Ref g"
  "paddle2Ref (render g) = paddle2Ref g"
  by (simp_all add: render_def)

lemma run_simps:
  "run [] g = g"
  "run (e # evs) g = run evs (step e g)"
  "run (evs @ [e]) g = step e (run evs g)"
  "run (evs @ evs') g = run evs' (run evs g)"
  by (simp_all add: run_def)

lemma run_ball_invariant:
  assumes "P (ball g)"
    and "\<And>delta rnd isPaused paddle1 paddle2 b.
           P b \<Longrightarrow> P (fst (Ball_useFrame delta rnd isPaused paddle1 paddle2 b))"
  shows "P (ball (run evs g))"
proof (induction evs rule: rev_induct)
  case Nil
  show ?case using assms(1) by (simp add: run_simps)
next
  case (snoc e evs)
  show ?case
    using snoc assms(2) by (cases e) (simp_all add: run_simps frame_simps render_simps)
qed

lemma paused_frame: "Ball_useFrame delta rnd True paddle1 paddle2 b = (b, [])"
  by (simp add: Ball_useFrame_def)

lemma frame_vz:
  "\<bar>vec_z (velocity b)\<bar> \<le> 1.5 * BALL_SPEED \<Longrightarrow>
   \<bar>vec_z (velocity (fst (Ball_useFrame delta rnd isPaused paddle1 paddle2 b)))\<bar> \<le> 1.5 * BALL_SPEED"
  by (cases isPaused) (simp_all add: paused_frame Ball_useFrame_unfold clampVelocity_simps clamp_def)


section \<open>Score calls and the match state\<close>

lemma calls_cases:
  "snd (Ball_useFrame delta rnd isPaused paddle1 paddle2 b) =
    (if isPaused then []
     else if vec_x (position (beforeScore delta paddle1 paddle2 b)) < - ARENA_WIDTH / 2 - 1 then [Player2]
     else if vec_x (position (beforeScore delta paddle1 paddle2 b)) > ARENA_WIDTH / 2 + 1 then [Player1]
     else [])"
  by (simp add: Ball_useFrame_unfold scoreStep_calls)

lemma initial_frame_scores:
  "snd (Ball_useFrame 1 0 False (paddle1Ref initial) (paddle2Ref initial) (ball initial)) = [Player1]"
  by (simp add: Ball_useFrame_unfold scoreStep_calls beforeScore_def stage_simps
        hitsLeft_def hitsRight_def initial_def clamp_def)

lemma calls_three:
  "snd (Ball_useFrame delta rnd isPaused paddle1 paddle2 b) = [] \<or>
   snd (Ball_useFrame delta rnd isPaused paddle1 paddle2 b) = [Player1] \<or>
   snd (Ball_useFrame delta rnd isPaused paddle1 paddle2 b) = [Player2]"
  by (simp add: calls_cases)

lemma scored_position:
  "snd (Ball_useFrame delta rnd isPaused paddle1 paddle2 b) \<noteq> [] \<Longrightarrow>
   position (fst (Ball_useFrame delta rnd isPaused paddle1 paddle2 b)) = Vector3 0 0.5 0"
  by (cases isPaused) (simp_all add: paused_frame Ball_useFrame_unfold clampVelocity_simps scoreStep_simps)


lemma startGame_simps:
  "score1 (startGame a) = 0" "score2 (startGame a) = 0"
  "winner (startGame a) = None" "gameState (startGame a) = playing"
  by (simp_all add: startGame_def)












lemma committed_frame:
  assumes "gameState (app g) = playing" and "queue g = []"
  shows "app (render (frame delta rnd g)) =
     foldl (\<lambda>a pl. handleScore pl a) (app g)
       (snd (Ball_useFrame delta rnd False (paddle1Ref g) (paddle2Ref g) (ball g)))"
  using assms calls_three [of delta rnd False "paddle1Ref g" "paddle2Ref g" "ball g"]
  by (auto simp: render_simps frame_simps)

section \<open>The crabs\<close>

lemma handleKeyDown_paddle_z: "paddle_z (handleKeyDown key p) = paddle_z p"
  by (simp add: handleKeyDown_def Let_def)

lemma handleKeyDown_targetZ:
  "targetZ (handleKeyDown key p) =
     (if key = ''ArrowDown'' \<or> key = ''s''
      then min (targetZ p + 0.5) (ARENA_HEIGHT / 2 - PADDLE_WIDTH / 2)
      else if key = ''ArrowUp'' \<or> key = ''w''
      then max (targetZ p - 0.5) (- ARENA_HEIGHT / 2 + PADDLE_WIDTH / 2)
      else targetZ p)"
  by (auto simp: handleKeyDown_def Let_def)

lemma CrabPaddle_player:
  "CrabPaddle_useFrame False delta bp p = p\<lparr>paddle_z := lerp (paddle_z p) (targetZ p) (delta * PADDLE_SPEED)\<rparr>"
  by (simp add: CrabPaddle_useFrame_def)

section \<open>Evaluating concrete runs\<close>

lemmas eval_defs = run_def frame_def render_def Ball_useFrame_def beforeScore_def updatePosition_def
  wallCollision_def paddleCollisionLeft_def paddleCollisionRight_def scoreLeft_def scoreRight_def
  clampVelocity_def handleScore_def startGame_def CrabPaddle_useFrame_def clamp_def lerp_def
  Vector3_def Let_def

lemma four_all_app:
  "app (run four_all initial) = \<lparr>score1 = 4, score2 = 4, gameState = playing, winner = None\<rparr>"
  by (simp add: four_all_def initial_def eval_defs)

lemma four_all_queue: "queue (run four_all initial) = []"
  by (simp add: four_all_def initial_def eval_defs)

lemma quick_match_app:
  "app (run quick_match initial) = \<lparr>score1 = 5, score2 = 4, gameState = gameover, winner = Some Player1\<rparr>"
  by (simp add: quick_match_def four_all_def initial_def eval_defs)

lemma quick_match_queue: "queue (run quick_match initial) = []"
  by (simp add: quick_match_def four_all_def initial_def eval_defs)

section \<open>The claims about the ball\<close>

text \<open>
  Claim C5. Let the ball, after the position update, be at along-width coordinate
  \<open>ARENA_WIDTH / 2 - 1.4\<close> and lateral coordinate \<open>0\<close>, with velocity \<open>(8, 0)\<close>, and
  let the vector the right-hand paddle check reads have lateral coordinate \<open>0\<close>. Then the
  right-hand (AI) paddle check fires, and at the end of the callback the along-width
  velocity is \<open>-8.4\<close>, the lateral velocity is still \<open>0\<close>, the along-width coordinate is
  \<open>ARENA_WIDTH / 2 - 1.5\<close>, and no score is reported.
\<close>

theorem paddle_hit_scenario:
  assumes "vec_x (position (updatePosition delta b)) = ARENA_WIDTH / 2 - 1.4"
    and "vec_z (position (updatePosition delta b)) = 0"
    and "vec_x (velocity b) = 8" and "vec_z (velocity b) = 0"
    and "paddle2 = Some pad" and "vec_z pad = 0"
  shows "hitsRight paddle2 (paddleCollisionLeft paddle1 (wallCollision (updatePosition delta b))) \<and>
      vec_x (velocity (fst (Ball_useFrame delta rnd False paddle1 paddle2 b))) = - 8.4 \<and>
      vec_z (velocity (fst (Ball_useFrame delta rnd False paddle1 paddle2 b))) = 0 \<and>
      vec_x (position (fst (Ball_useFrame delta rnd False paddle1 paddle2 b))) = ARENA_WIDTH / 2 - 1.5 \<and>
      snd (Ball_useFrame delta rnd False paddle1 paddle2 b) = []"
proof -
  let ?u = "updatePosition delta b"
  let ?w = "wallCollision ?u"
  let ?l = "paddleCollisionLeft paddle1 ?w"
  let ?r = "paddleCollisionRight paddle2 ?l"
  have u: "vec_x (position ?u) = 4.6" "vec_z (position ?u) = 0" "vec_x (velocity ?u) = 8" "vec_z (velocity ?u) = 0"
    using assms by (simp_all add: updatePosition_simps(1))
  have w: "vec_x (position ?w) = 4.6" "vec_z (position ?w) = 0" "vec_x (velocity ?w) = 8" "vec_z (velocity ?w) = 0"
    using u by (simp_all add: wallCollision_simps clamp_def)
  have nl: "\<not> hitsLeft paddle1 ?w"
    using w by (simp add: hitsLeft_def split: option.split)
  have l: "vec_x (position ?l) = 4.6" "vec_z (position ?l) = 0" "vec_x (velocity ?l) = 8" "vec_z (velocity ?l) = 0"
    using w nl by (simp_all add: paddleCollisionLeft_simps)
  have hr: "hitsRight paddle2 ?l"
    using l assms(5,6) by (simp add: hitsRight_def)
  have r: "vec_x (position ?r) = 4.5" "vec_x (velocity ?r) = - 8.4" "vec_z (velocity ?r) = 0"
    using l hr assms(5,6) by (simp_all add: paddleCollisionRight_simps)
  have nocall: "snd (scoreStep rnd ?r) = []"
    using r by (simp add: scoreStep_calls)
  show ?thesis
    using hr r nocall
    by (simp add: Ball_useFrame_unfold beforeScore_def clampVelocity_simps scoreStep_simps clamp_def)
qed

theorem paddle_hit_scenario_witness:
  "vec_x (position (updatePosition 0.05 (ball initial\<lparr>position := Vector3 4.2 0.5 0, velocity := Vector3 8 0 0\<rparr>)))
     = ARENA_WIDTH / 2 - 1.4 \<and>
   vec_x (velocity (fst (Ball_useFrame 0.05 0 False (paddle1Ref initial) (paddle2Ref initial)
      (ball initial\<lparr>position := Vector3 4.2 0.5 0, velocity := Vector3 8 0 0\<rparr>)))) = - 8.4"
  using paddle_hit_scenario [of "0.05" "ball initial\<lparr>position := Vector3 4.2 0.5 0, velocity := Vector3 8 0 0\<rparr>"
      "paddle2Ref initial" "Vector3 5 0.5 0" "paddle1Ref initial" 0]
  by (simp add: updatePosition_simps initial_def)

text \<open>
  Claim C6. Whenever the lateral coordinate after the position update lies beyond
  \<open>ARENA_HEIGHT / 2 - 0.3\<close> in absolute value, the wall check negates the lateral
  velocity, keeps its magnitude, and puts the lateral coordinate back into
  \<open>[-ARENA_HEIGHT / 2 + 0.3, ARENA_HEIGHT / 2 - 0.3]\<close>; and at the end of every callback
  that is not paused the lateral coordinate lies in that interval, whatever the ball was
  before.
\<close>

theorem wall_bounce_restores_containment:
  "(ARENA_HEIGHT / 2 - 0.3 < \<bar>vec_z (position (updatePosition delta b))\<bar> \<longrightarrow>
      vec_z (velocity (wallCollision (updatePosition delta b))) = - vec_z (velocity b) \<and>
      \<bar>vec_z (velocity (wallCollision (updatePosition delta b)))\<bar> = \<bar>vec_z (velocity b)\<bar> \<and>
      inBallRange (vec_z (position (wallCollision (updatePosition delta b))))) \<and>
   inBallRange (vec_z (position (fst (Ball_useFrame delta rnd False paddle1 paddle2 b))))"
proof -
  let ?u = "updatePosition delta b"
  have rng: "inBallRange (vec_z (position (wallCollision ?u)))"
    using clamp_bounds [of "- ARENA_HEIGHT / 2 + 0.3" "ARENA_HEIGHT / 2 - 0.3" "vec_z (position ?u)"]
    by (simp add: inBallRange_def wallCollision_simps(6))
  have neg: "vec_z (velocity (wallCollision ?u)) = - vec_z (velocity b)"
    if "ARENA_HEIGHT / 2 - 0.3 < \<bar>vec_z (position ?u)\<bar>"
    using that by (auto simp: wallCollision_simps(3) updatePosition_simps(1))
  have fin: "inBallRange (vec_z (position (fst (Ball_useFrame delta rnd False paddle1 paddle2 b))))"
    using frame_z_range [of delta rnd paddle1 paddle2 b] by (simp add: inBallRange_def)
  show ?thesis using rng neg fin by simp
qed

theorem wall_bounce_restores_containment_witness:
  "ARENA_HEIGHT / 2 - 0.3 < \<bar>vec_z (position (updatePosition 1 (ball initial)))\<bar> \<and>
   vec_z (velocity (ball initial)) = 4 \<and>
   vec_z (velocity (wallCollision (updatePosition 1 (ball initial)))) = - 4 \<and>
   inBallRange (vec_z (position (wallCollision (updatePosition 1 (ball initial)))))"
  using wall_bounce_restores_containment [of 1 "ball initial" 0 None None]
  by (simp add: updatePosition_simps initial_def)

text \<open>
  Claim C8. At the end of every callback that is not paused the lateral velocity is at
  most \<open>1.5 * BALL_SPEED\<close> in absolute value, whatever the ball was before and whichever
  checks fired; a paused callback changes nothing, so the bound holds for the ball after
  any sequence of events from the initial state.
\<close>

theorem lateral_speed_bounded:
  "\<bar>vec_z (velocity (fst (Ball_useFrame delta rnd False paddle1 paddle2 b)))\<bar> \<le> 1.5 * BALL_SPEED \<and>
   \<bar>vec_z (velocity (ball (run evs initial)))\<bar> \<le> 1.5 * BALL_SPEED"
proof
  show "\<bar>vec_z (velocity (fst (Ball_useFrame delta rnd False paddle1 paddle2 b)))\<bar> \<le> 1.5 * BALL_SPEED"
    by (simp add: Ball_useFrame_unfold clampVelocity_simps clamp_def)
  show "\<bar>vec_z (velocity (ball (run evs initial)))\<bar> \<le> 1.5 * BALL_SPEED"
    by (rule run_ball_invariant) (simp add: initial_def, rule frame_vz)
qed

text \<open>
  Claim C9. The along-width velocity starts at \<open>BALL_SPEED\<close>; the wall check leaves it
  unchanged; a paddle check that fires sets it to \<open>1.05\<close> times its magnitude (positive on
  the left, negative on the right) and one that does not fire changes nothing; a callback
  that reports a score leaves it at magnitude \<open>BALL_SPEED\<close> exactly; so a callback keeps
  the magnitude at or above \<open>BALL_SPEED\<close>, and it is at or above \<open>BALL_SPEED\<close> after any
  sequence of events from the initial state.
\<close>

theorem along_width_speed_at_least_base:
  "vec_x (velocity (ball initial)) = BALL_SPEED \<and>
   vec_x (velocity (wallCollision b)) = vec_x (velocity b) \<and>
   (hitsLeft paddle1 b \<longrightarrow> vec_x (velocity (paddleCollisionLeft paddle1 b)) = \<bar>vec_x (velocity b)\<bar> * 1.05) \<and>
   (\<not> hitsLeft paddle1 b \<longrightarrow> paddleCollisionLeft paddle1 b = b) \<and>
   (hitsRight paddle2 b \<longrightarrow> vec_x (velocity (paddleCollisionRight paddle2 b)) = - (\<bar>vec_x (velocity b)\<bar> * 1.05)) \<and>
   (\<not> hitsRight paddle2 b \<longrightarrow> paddleCollisionRight paddle2 b = b) \<and>
   (snd (Ball_useFrame delta rnd isPaused paddle1 paddle2 b) \<noteq> [] \<longrightarrow>
      \<bar>vec_x (velocity (fst (Ball_useFrame delta rnd isPaused paddle1 paddle2 b)))\<bar> = BALL_SPEED) \<and>
   (BALL_SPEED \<le> \<bar>vec_x (velocity b)\<bar> \<longrightarrow>
      BALL_SPEED \<le> \<bar>vec_x (velocity (fst (Ball_useFrame delta rnd isPaused paddle1 paddle2 b)))\<bar>) \<and>
   BALL_SPEED \<le> \<bar>vec_x (velocity (ball (run evs initial)))\<bar>"
proof -
  have 1: "vec_x (velocity (ball initial)) = BALL_SPEED"
    by (simp add: initial_def)
  have 2: "vec_x (velocity (wallCollision b)) = vec_x (velocity b)"
    by (simp add: wallCollision_simps)
  have 3: "hitsLeft paddle1 b \<longrightarrow> vec_x (velocity (paddleCollisionLeft paddle1 b)) = \<bar>vec_x (velocity b)\<bar> * 1.05"
    by (simp add: paddleCollisionLeft_simps)
  have 4: "\<not> hitsLeft paddle1 b \<longrightarrow> paddleCollisionLeft paddle1 b = b"
    by (simp add: paddleCollisionLeft_def hitsLeft_def Let_def split: option.split)
  have 5: "hitsRight paddle2 b \<longrightarrow> vec_x (velocity (paddleCollisionRight paddle2 b)) = - (\<bar>vec_x (velocity b)\<bar> * 1.05)"
    by (simp add: paddleCollisionRight_simps)
  have 6: "\<not> hitsRight paddle2 b \<longrightarrow> paddleCollisionRight paddle2 b = b"
    by (simp add: paddleCollisionRight_def hitsRight_def Let_def split: option.split)
  have 7: "snd (Ball_useFrame delta rnd isPaused paddle1 paddle2 b) \<noteq> [] \<longrightarrow>
      \<bar>vec_x (velocity (fst (Ball_useFrame delta rnd isPaused paddle1 paddle2 b)))\<bar> = BALL_SPEED"
    by (simp add: Ball_useFrame_unfold clampVelocity_simps scoreStep_simps)
  have 8: "BALL_SPEED \<le> \<bar>vec_x (velocity b)\<bar> \<longrightarrow>
      BALL_SPEED \<le> \<bar>vec_x (velocity (fst (Ball_useFrame delta rnd isPaused paddle1 paddle2 b)))\<bar>"
    using frame_vx by blast
  have 9: "BALL_SPEED \<le> \<bar>vec_x (velocity (ball (run evs initial)))\<bar>"
    by (rule run_ball_invariant) (simp add: initial_def, rule frame_vx)
  show ?thesis using 1 2 3 4 5 6 7 8 9 by blast
qed

theorem along_width_speed_at_least_base_witness:
  "BALL_SPEED \<le> \<bar>vec_x (velocity (ball initial))\<bar> \<and>
   snd (Ball_useFrame 1 0 False (paddle1Ref initial) (paddle2Ref initial) (ball initial)) \<noteq> [] \<and>
   \<bar>vec_x (velocity (fst (Ball_useFrame 1 0 False (paddle1Ref initial) (paddle2Ref initial) (ball initial))))\<bar>
     = BALL_SPEED"
proof -
  have "snd (Ball_useFrame 1 0 False (paddle1Ref initial) (paddle2Ref initial) (ball initial)) = [Player1]"
    by (simp add: Ball_useFrame_unfold scoreStep_calls beforeScore_def stage_simps
        hitsLeft_def hitsRight_def initial_def clamp_def)
  then show ?thesis
    using along_width_speed_at_least_base [of "ball initial" "paddle1Ref initial" "paddle2Ref initial" 1 0 False "[]"]
    by simp
qed

text \<open>
  Claim C10. The vertical coordinate of the ball's position is \<open>0.5\<close> at the start, every
  callback (paused or not, scoring or not) keeps it at \<open>0.5\<close>, and so it is \<open>0.5\<close> after
  any sequence of events; likewise the vertical velocity stays \<open>0\<close>. The callback writes
  the vertical coordinates only in the resets after a score, with these same values.
\<close>

theorem ball_height_unchanged:
  "vec_y (position (ball initial)) = 0.5 \<and> vec_y (velocity (ball initial)) = 0 \<and>
   (vec_y (position b) = 0.5 \<longrightarrow>
      vec_y (position (fst (Ball_useFrame delta rnd isPaused paddle1 paddle2 b))) = 0.5) \<and>
   (vec_y (velocity b) = 0 \<longrightarrow>
      vec_y (velocity (fst (Ball_useFrame delta rnd isPaused paddle1 paddle2 b))) = 0) \<and>
   vec_y (position (ball (run evs initial))) = 0.5 \<and>
   vec_y (velocity (ball (run evs initial))) = 0"
proof -
  have 1: "vec_y (position (ball (run evs initial))) = 0.5"
    by (rule run_ball_invariant) (simp add: initial_def, rule frame_py)
  have 2: "vec_y (velocity (ball (run evs initial))) = 0"
    by (rule run_ball_invariant) (simp add: initial_def, rule frame_vy)
  show ?thesis
    using 1 2 frame_py [of b delta rnd isPaused paddle1 paddle2] frame_vy [of b delta rnd isPaused paddle1 paddle2]
    by (simp add: initial_def)
qed

theorem ball_height_unchanged_witness:
  "vec_y (position (ball initial)) = 0.5 \<and>
   vec_y (position (fst (Ball_useFrame 1 0 False (paddle1Ref initial) (paddle2Ref initial) (ball initial)))) = 0.5 \<and>
   snd (Ball_useFrame 1 0 False (paddle1Ref initial) (paddle2Ref initial) (ball initial)) = [Player1]"
proof -
  have "snd (Ball_useFrame 1 0 False (paddle1Ref initial) (paddle2Ref initial) (ball initial)) = [Player1]"
    by (simp add: Ball_useFrame_unfold scoreStep_calls beforeScore_def stage_simps
        hitsLeft_def hitsRight_def initial_def clamp_def)
  then show ?thesis
    using ball_height_unchanged [of "ball initial" 1 0 False "paddle1Ref initial" "paddle2Ref initial" "[]"]
    by simp
qed

section \<open>The claims about scoring and the match\<close>

text \<open>
  Claim C4, as stated, fails in one respect: the direction of the serve. From the initial
  ball a frame of one second puts the ball beyond the right-hand edge by more than the
  margin; \<^verbatim>\<open>onScore(1)\<close> is called, so the player has scored and the AI, on the right,
  has conceded; the along-width velocity is then \<open>-BALL_SPEED\<close>, which points to the
  left, away from the AI's side.
\<close>

theorem score_reset_direction_counterexample:
  "ARENA_WIDTH / 2 + 1 < vec_x (position (beforeScore 1 (paddle1Ref initial) (paddle2Ref initial) (ball initial))) \<and>
   snd (Ball_useFrame 1 0 False (paddle1Ref initial) (paddle2Ref initial) (ball initial)) = [Player1] \<and>
   vec_x (velocity (fst (Ball_useFrame 1 0 False (paddle1Ref initial) (paddle2Ref initial) (ball initial)))) = - BALL_SPEED \<and>
   \<not> towards (vec_x (velocity (fst (Ball_useFrame 1 0 False (paddle1Ref initial) (paddle2Ref initial) (ball initial)))))
        (opponent Player1)"
proof -
  have x: "vec_x (position (beforeScore 1 (paddle1Ref initial) (paddle2Ref initial) (ball initial))) = 8"
    by (simp add: beforeScore_def stage_simps hitsLeft_def hitsRight_def initial_def clamp_def)
  have v: "vec_x (velocity (fst (Ball_useFrame 1 0 False (paddle1Ref initial) (paddle2Ref initial) (ball initial)))) = - 8"
    using initial_frame_scores by (simp add: Ball_useFrame_unfold clampVelocity_simps scoreStep_simps)
  show ?thesis
    using x v initial_frame_scores by (simp add: towards_def)
qed

text \<open>
  Claim C4, amended. Let \<^verbatim>\<open>Math.random()\<close> return a value in \<open>[0, 1)\<close>. A callback
  that is not paused calls \<^verbatim>\<open>onScore\<close> at most once. If, where the score checks read
  it, the along-width coordinate is beyond \<open>ARENA_WIDTH / 2 + 1\<close>, the one call is
  \<^verbatim>\<open>onScore(1)\<close>, the position becomes \<open>(0, 0.5, 0)\<close> exactly, the along-width velocity
  becomes \<open>-BALL_SPEED\<close>, towards the side of the player, who has just scored, and the
  lateral velocity lies in \<open>[-BALL_SPEED / 2, BALL_SPEED / 2]\<close>; symmetrically below
  \<open>-ARENA_WIDTH / 2 - 1\<close>, with \<^verbatim>\<open>onScore(2)\<close> and \<open>+BALL_SPEED\<close>, towards the AI; and
  between the two lines no call is made.
\<close>

theorem score_reset:
  assumes "0 \<le> rnd" and "rnd < 1"
  shows "length (snd (Ball_useFrame delta rnd False paddle1 paddle2 b)) \<le> 1 \<and>
    (ARENA_WIDTH / 2 + 1 < vec_x (position (beforeScore delta paddle1 paddle2 b)) \<longrightarrow>
       snd (Ball_useFrame delta rnd False paddle1 paddle2 b) = [Player1] \<and>
       position (fst (Ball_useFrame delta rnd False paddle1 paddle2 b)) = Vector3 0 0.5 0 \<and>
       vec_x (velocity (fst (Ball_useFrame delta rnd False paddle1 paddle2 b))) = - BALL_SPEED \<and>
       towards (vec_x (velocity (fst (Ball_useFrame delta rnd False paddle1 paddle2 b)))) Player1 \<and>
       \<bar>vec_z (velocity (fst (Ball_useFrame delta rnd False paddle1 paddle2 b)))\<bar> \<le> BALL_SPEED / 2) \<and>
    (vec_x (position (beforeScore delta paddle1 paddle2 b)) < - ARENA_WIDTH / 2 - 1 \<longrightarrow>
       snd (Ball_useFrame delta rnd False paddle1 paddle2 b) = [Player2] \<and>
       position (fst (Ball_useFrame delta rnd False paddle1 paddle2 b)) = Vector3 0 0.5 0 \<and>
       vec_x (velocity (fst (Ball_useFrame delta rnd False paddle1 paddle2 b))) = BALL_SPEED \<and>
       towards (vec_x (velocity (fst (Ball_useFrame delta rnd False paddle1 paddle2 b)))) Player2 \<and>
       \<bar>vec_z (velocity (fst (Ball_useFrame delta rnd False paddle1 paddle2 b)))\<bar> \<le> BALL_SPEED / 2) \<and>
    (- ARENA_WIDTH / 2 - 1 \<le> vec_x (position (beforeScore delta paddle1 paddle2 b)) \<and>
     vec_x (position (beforeScore delta paddle1 paddle2 b)) \<le> ARENA_WIDTH / 2 + 1 \<longrightarrow>
       snd (Ball_useFrame delta rnd False paddle1 paddle2 b) = [])"
proof -
  let ?b0 = "beforeScore delta paddle1 paddle2 b"
  let ?r = "Ball_useFrame delta rnd False paddle1 paddle2 b"
  have rz: "\<bar>(rnd - 0.5) * BALL_SPEED\<bar> \<le> BALL_SPEED / 2"
    using assms by (simp add: abs_le_iff)
  have len: "length (snd ?r) \<le> 1"
    by (simp add: calls_cases)
  have right: "snd ?r = [Player1] \<and> position (fst ?r) = Vector3 0 0.5 0 \<and>
       vec_x (velocity (fst ?r)) = - BALL_SPEED \<and> towards (vec_x (velocity (fst ?r))) Player1 \<and>
       \<bar>vec_z (velocity (fst ?r))\<bar> \<le> BALL_SPEED / 2"
    if "ARENA_WIDTH / 2 + 1 < vec_x (position ?b0)"
  proof -
    have c: "snd (scoreStep rnd ?b0) = [Player1]"
      using that by (simp add: scoreStep_calls)
    have z: "vec_z (velocity (fst ?r)) = (rnd - 0.5) * BALL_SPEED"
      using c rz by (simp add: Ball_useFrame_unfold clampVelocity_simps scoreStep_simps clamp_def)
    show ?thesis
      using c z rz by (simp add: Ball_useFrame_unfold clampVelocity_simps scoreStep_simps towards_def)
  qed
  have left: "snd ?r = [Player2] \<and> position (fst ?r) = Vector3 0 0.5 0 \<and>
       vec_x (velocity (fst ?r)) = BALL_SPEED \<and> towards (vec_x (velocity (fst ?r))) Player2 \<and>
       \<bar>vec_z (velocity (fst ?r))\<bar> \<le> BALL_SPEED / 2"
    if "vec_x (position ?b0) < - ARENA_WIDTH / 2 - 1"
  proof -
    have c: "snd (scoreStep rnd ?b0) = [Player2]"
      using that by (simp add: scoreStep_calls)
    have z: "vec_z (velocity (fst ?r)) = (rnd - 0.5) * BALL_SPEED"
      using c rz by (simp add: Ball_useFrame_unfold clampVelocity_simps scoreStep_simps clamp_def)
    show ?thesis
      using c z rz by (simp add: Ball_useFrame_unfold clampVelocity_simps scoreStep_simps towards_def)
  qed
  have none: "snd ?r = []"
    if "- ARENA_WIDTH / 2 - 1 \<le> vec_x (position ?b0) \<and> vec_x (position ?b0) \<le> ARENA_WIDTH / 2 + 1"
    using that by (simp add: calls_cases)
  show ?thesis using len right left none by blast
qed

theorem score_reset_witness:
  "(0::real) \<le> 0 \<and> (0::real) < 1 \<and>
   ARENA_WIDTH / 2 + 1 < vec_x (position (beforeScore 1 (paddle1Ref initial) (paddle2Ref initial) (ball initial))) \<and>
   snd (Ball_useFrame 1 0 False (paddle1Ref initial) (paddle2Ref initial) (ball initial)) = [Player1] \<and>
   vec_x (velocity (fst (Ball_useFrame 1 0 False (paddle1Ref initial) (paddle2Ref initial) (ball initial)))) = - BALL_SPEED"
proof -
  have x: "vec_x (position (beforeScore 1 (paddle1Ref initial) (paddle2Ref initial) (ball initial))) = 8"
    by (simp add: beforeScore_def stage_simps hitsLeft_def hitsRight_def initial_def clamp_def)
  show ?thesis
    using x score_reset [of 0 1 "paddle1Ref initial" "paddle2Ref initial" "ball initial"] by simp
qed




text \<open>
  Claim C1, as stated, fails for the paddles. From the initial state: the click starts
  the match, the player presses \<^verbatim>\<open>s\<close>, a frame of a tenth of a second moves the
  player's crab to \<open>0.5\<close>, and nine frames of one second, each rendered, end the match at
  five to four with the crab still at \<open>0.5\<close>. The click on "Play Again" then calls
  \<^verbatim>\<open>startGame\<close>: once rendered, the scores are \<open>0\<close> and the phase is \<^verbatim>\<open>'playing'\<close>, and
  the crab is at \<open>0.5\<close>, not at its initial \<open>0\<close>.
\<close>

theorem restart_keeps_paddles_counterexample:
  "gameState (app (run match_with_move initial)) = gameover \<and>
   score1 (app (run match_with_move initial)) = 5 \<and>
   score2 (app (run match_with_move initial)) = 4 \<and>
   paddle_z (player_paddle (run match_with_move initial)) = 0.5 \<and>
   gameState (app (run [Click, Render] (run match_with_move initial))) = playing \<and>
   score1 (app (run [Click, Render] (run match_with_move initial))) = 0 \<and>
   score2 (app (run [Click, Render] (run match_with_move initial))) = 0 \<and>
   paddle_z (player_paddle (run [Click, Render] (run match_with_move initial))) = 0.5 \<and>
   paddle_z (player_paddle initial) = 0"
proof -
  have a: "app (run match_with_move initial) =
      \<lparr>score1 = 5, score2 = 4, gameState = gameover, winner = Some Player1\<rparr>"
    by (simp add: match_with_move_def initial_def eval_defs handleKeyDown_def)
  have q: "queue (run match_with_move initial) = []"
    by (simp add: match_with_move_def initial_def eval_defs handleKeyDown_def)
  have p: "paddle_z (player_paddle (run match_with_move initial)) = 0.5"
    by (simp add: match_with_move_def initial_def eval_defs handleKeyDown_def)
  show ?thesis
    using a q p by (simp add: run_simps render_simps startGame_def initial_def)
qed

text \<open>
  Claim C1, amended. If the button is clicked while the rendered phase is
  \<^verbatim>\<open>'gameover'\<close>, whatever the scores, then once React has rendered the call of
  \<^verbatim>\<open>startGame\<close> both scores are \<open>0\<close>, the winner is cleared and the phase is
  \<^verbatim>\<open>'playing'\<close>. Neither the call nor the render changes anything of the ball or of
  either crab: both paddles keep the lateral positions they had, and the ball stays
  where it was. The ball is at its initial position if the state at the click is the
  one rendered right after the frame that ended the match, since that frame's reset had
  put it there.
\<close>

theorem restart_from_gameover:
  assumes "gameState (app g) = gameover"
  shows "score1 (app (render (step Click g))) = 0 \<and>
         score2 (app (render (step Click g))) = 0 \<and>
         winner (app (render (step Click g))) = None \<and>
         gameState (app (render (step Click g))) = playing \<and>
         ball (render (step Click g)) = ball g \<and>
         player_paddle (render (step Click g)) = player_paddle g \<and>
         ai_paddle (render (step Click g)) = ai_paddle g \<and>
         (gameState (app h) = playing \<and> queue h = [] \<and> render (frame delta rnd h) = g \<longrightarrow>
            position (ball (render (step Click g))) = position (ball initial))"
proof -
  have a: "app (render (step Click g)) = startGame (foldl commit (app g) (queue g))"
    using assms by (simp add: render_simps)
  have b: "ball (render (step Click g)) = ball g \<and>
         player_paddle (render (step Click g)) = player_paddle g \<and>
         ai_paddle (render (step Click g)) = ai_paddle g"
    by (simp add: render_simps)
  have c: "position (ball g) = position (ball initial)"
    if "gameState (app h) = playing \<and> queue h = [] \<and> render (frame delta rnd h) = g"
  proof -
    let ?r = "Ball_useFrame delta rnd False (paddle1Ref h) (paddle2Ref h) (ball h)"
    have "app g = foldl (\<lambda>a pl. handleScore pl a) (app h) (snd ?r)"
      using that committed_frame [of h delta rnd] by auto
    then have "snd ?r \<noteq> []"
      using that assms by auto
    then have "position (fst ?r) = Vector3 0 0.5 0"
      by (rule scored_position)
    moreover have "ball g = fst ?r"
      using that by (auto simp: render_simps frame_simps)
    ultimately show ?thesis by (simp add: initial_def)
  qed
  show ?thesis
    using a b c by (simp add: startGame_simps)
qed

theorem restart_from_gameover_witness:
  "gameState (app (run quick_match initial)) = gameover \<and>
   score1 (app (run quick_match initial)) = 5 \<and> score2 (app (run quick_match initial)) = 4 \<and>
   gameState (app (run four_all initial)) = playing \<and> queue (run four_all initial) = [] \<and>
   render (frame 1 0 (run four_all initial)) = run quick_match initial \<and>
   score1 (app (render (step Click (run quick_match initial)))) = 0 \<and>
   score2 (app (render (step Click (run quick_match initial)))) = 0 \<and>
   gameState (app (render (step Click (run quick_match initial)))) = playing \<and>
   player_paddle (render (step Click (run quick_match initial))) = player_paddle (run quick_match initial) \<and>
   position (ball (render (step Click (run quick_match initial)))) = position (ball initial)"
proof -
  have f: "render (frame 1 0 (run four_all initial)) = run quick_match initial"
    by (simp add: quick_match_def run_simps)
  show ?thesis
    using restart_from_gameover [where g = "run quick_match initial" and h = "run four_all initial"
        and delta = 1 and rnd = 0] quick_match_app four_all_app four_all_queue f
    by (simp add: render_simps)
qed

section \<open>The claims about the paddles\<close>

text \<open>
  Claim C2, as stated, fails. After the match has ended and been rendered, the phase is
  \<^verbatim>\<open>'gameover'\<close> and the player's crab is at \<open>0\<close>. With no call of \<^verbatim>\<open>startGame\<close>, the
  key \<^verbatim>\<open>s\<close> followed by one frame of a sixteenth of a second moves the crab to
  \<open>0.3125\<close>, the phase still being \<^verbatim>\<open>'gameover'\<close>; the same frame without the key leaves
  it at \<open>0\<close>.
\<close>

theorem move_after_gameover_counterexample:
  "gameState (app (run quick_match initial)) = gameover \<and>
   paddle_z (player_paddle (run quick_match initial)) = 0 \<and>
   gameState (app (run [KeyDown ''s'', Frame (1/16) 0, Render] (run quick_match initial))) = gameover \<and>
   paddle_z (player_paddle (run [KeyDown ''s'', Frame (1/16) 0, Render] (run quick_match initial))) = 0.3125 \<and>
   paddle_z (player_paddle (run [Frame (1/16) 0, Render] (run quick_match initial))) = 0"
proof -
  have p: "player_paddle (run quick_match initial) = \<lparr>targetZ = 0, paddle_z = 0\<rparr>"
    by (simp add: quick_match_def four_all_def initial_def eval_defs)
  have over: "gameState (app (run quick_match initial)) \<noteq> playing"
    by (simp add: quick_match_app)
  have k: "paddle_z (player_paddle (frame (1/16) 0 (step (KeyDown ''s'') (run quick_match initial)))) = 0.3125"
    using p by (simp add: frame_simps CrabPaddle_player handleKeyDown_targetZ handleKeyDown_paddle_z lerp_def)
  have ka: "app (render (frame (1/16) 0 (step (KeyDown ''s'') (run quick_match initial))))
      = app (run quick_match initial)"
    using over quick_match_queue by (simp add: render_simps frame_simps paused_frame)
  have n: "paddle_z (player_paddle (frame (1/16) 0 (run quick_match initial))) = 0"
    using p by (simp add: frame_simps CrabPaddle_player lerp_def)
  show ?thesis
    using p k ka n by (simp add: run_simps render_simps quick_match_app)
qed

text \<open>
  Claim C2, amended. While the rendered phase is not \<^verbatim>\<open>'playing'\<close>, a frame leaves the
  ball as it is and makes no call of \<^verbatim>\<open>onScore\<close>, so the match state stays as it is.
  The player's crab is not paused: in every phase a key press leaves its lateral
  position as it is and moves its target by \<open>0.5\<close> (down for
  \<^verbatim>\<open>ArrowDown\<close>/\<^verbatim>\<open>s\<close>, up for \<^verbatim>\<open>ArrowUp\<close>/\<^verbatim>\<open>w\<close>, clamped to the legal range), and
  in every phase a frame leaves the target as it is and moves the lateral position to
  \<^verbatim>\<open>lerp(position, target, delta * PADDLE_SPEED)\<close>.
\<close>

theorem only_ball_is_paused:
  "(gameState (app g) \<noteq> playing \<longrightarrow>
      ball (frame delta rnd g) = ball g \<and> queue (frame delta rnd g) = queue g \<and>
      app (frame delta rnd g) = app g) \<and>
   paddle_z (player_paddle (step (KeyDown key) g)) = paddle_z (player_paddle g) \<and>
   targetZ (player_paddle (step (KeyDown key) g)) =
     (if key = ''ArrowDown'' \<or> key = ''s''
      then min (targetZ (player_paddle g) + 0.5) (ARENA_HEIGHT / 2 - PADDLE_WIDTH / 2)
      else if key = ''ArrowUp'' \<or> key = ''w''
      then max (targetZ (player_paddle g) - 0.5) (- ARENA_HEIGHT / 2 + PADDLE_WIDTH / 2)
      else targetZ (player_paddle g)) \<and>
   paddle_z (player_paddle (frame delta rnd g)) =
     lerp (paddle_z (player_paddle g)) (targetZ (player_paddle g)) (delta * PADDLE_SPEED) \<and>
   targetZ (player_paddle (frame delta rnd g)) = targetZ (player_paddle g)"
  by (simp add: frame_simps paused_frame handleKeyDown_targetZ handleKeyDown_paddle_z CrabPaddle_player)

theorem only_ball_is_paused_witness:
  "gameState (app (run quick_match initial)) \<noteq> playing \<and>
   ball (frame (1/16) 0 (run quick_match initial)) = ball (run quick_match initial) \<and>
   queue (frame (1/16) 0 (run quick_match initial)) = queue (run quick_match initial) \<and>
   targetZ (player_paddle (step (KeyDown ''s'') (run quick_match initial))) = 0.5"
proof -
  have t: "targetZ (player_paddle (run quick_match initial)) = 0"
    by (simp add: quick_match_def four_all_def initial_def eval_defs)
  show ?thesis
    using only_ball_is_paused [of "run quick_match initial" "1/16" 0 "''s''"] quick_match_app t
    by simp
qed

text \<open>
  Claim C3 asks that both paddles stay within
  \<open>[-ARENA_HEIGHT / 2 + PADDLE_WIDTH / 2, ARENA_HEIGHT / 2 - PADDLE_WIDTH / 2]\<close> for every
  non-negative delta and that a frame never moves a paddle past its target. The source
  clamps both targets to that interval but not the interpolation factor. After the click
  and six presses of \<^verbatim>\<open>s\<close> the crab is at \<open>0\<close>, within the interval, and its target is
  \<open>2.75\<close>, the upper end. A frame with a delta of a quarter of a second has factor \<open>2.5\<close>
  and moves the crab to \<open>6.875\<close>: past the target and out of the interval.
\<close>

theorem long_frame_leaves_range:
  "(0::real) \<le> 1/4 \<and>
   inPaddleRange (paddle_z (player_paddle (run [Click, Render, KeyDown ''s'', KeyDown ''s'', KeyDown ''s'',
       KeyDown ''s'', KeyDown ''s'', KeyDown ''s''] initial))) \<and>
   targetZ (player_paddle (run [Click, Render, KeyDown ''s'', KeyDown ''s'', KeyDown ''s'',
       KeyDown ''s'', KeyDown ''s'', KeyDown ''s''] initial)) = 2.75 \<and>
   paddle_z (player_paddle (run [Click, Render, KeyDown ''s'', KeyDown ''s'', KeyDown ''s'',
       KeyDown ''s'', KeyDown ''s'', KeyDown ''s'', Frame (1/4) 0] initial)) = 6.875 \<and>
   \<not> inPaddleRange (paddle_z (player_paddle (run [Click, Render, KeyDown ''s'', KeyDown ''s'', KeyDown ''s'',
       KeyDown ''s'', KeyDown ''s'', KeyDown ''s'', Frame (1/4) 0] initial)))"
  by (simp add: initial_def eval_defs handleKeyDown_def inPaddleRange_def)

end
